theory Spec2Isabelle
  imports Complex_Main
begin

section \<open>Raport Otomatis API: the grade computation engine\<close>

text \<open>
  A shallow embedding of \<^verbatim>\<open>main.py\<close> and \<^verbatim>\<open>database.py\<close>.

  \<^item> Numbers. Python's \<^verbatim>\<open>float\<close> (and the \<^verbatim>\<open>int\<close> defaults 30, 20, 70, 0 that are
    mixed with it) are idealised as exact rationals: \<open>+\<close>, \<open>*\<close>, \<open>/\<close>, \<open>\<ge>\<close> and \<open>==\<close> are
    the exact operations, \<^verbatim>\<open>statistics.mean\<close> is the exact mean and \<^verbatim>\<open>round(x, 2)\<close> is
    rounding to the nearest multiple of 1/100, ties to the even one. The rounding error
    of IEEE-754 doubles, infinities and NaN are outside the model.
  \<^item> Documents. A MongoDB document is a record of the fields its pydantic model in
    \<^verbatim>\<open>main.py\<close> declares, under the header every document carries (\<^verbatim>\<open>_id\<close>,
    \<^verbatim>\<open>created_at\<close>, \<^verbatim>\<open>updated_at\<close>). A field that the code reads with
    \<^verbatim>\<open>.get(key, default)\<close> is optional in the stored document (\<open>None\<close>: the key is
    missing); a field read with \<^verbatim>\<open>[key]\<close> or only used in a query filter is required.
    For \<^verbatim>\<open>class_name\<close>, \<open>None\<close> stands for both a missing key and a stored
    \<^verbatim>\<open>null\<close>: the MongoDB filter \<^verbatim>\<open>{"class_name": None}\<close> matches both.
  \<^item> Effects. The module-level handle \<^verbatim>\<open>db\<close> is the state: \<open>None\<close> when the client
    could not be built, otherwise the four collections, each a list of documents in
    insertion order. Every operation takes the state and returns its result with the
    state after it. An exception is a value \<open>Inl e\<close>.
  \<^item> Inputs from outside (the clock read by \<^verbatim>\<open>datetime.utcnow()\<close>, the identifier
    generated by \<^verbatim>\<open>insert_one\<close>) are arguments.
\<close>

subsection \<open>Identifiers, time, exceptions\<close>

type_synonym datetime = nat

text \<open>A \<^verbatim>\<open>bson.ObjectId\<close>, held as the string \<^verbatim>\<open>str\<close> prints: 24 lower-case hex digits.\<close>

type_synonym object_id = string

definition is_hex :: "char \<Rightarrow> bool" where
  "is_hex c = (c \<in> set ''0123456789abcdefABCDEF'')"

definition lower_hex :: "char \<Rightarrow> char" where
  "lower_hex c =
     (if c = CHR ''A'' then CHR ''a'' else if c = CHR ''B'' then CHR ''b''
      else if c = CHR ''C'' then CHR ''c'' else if c = CHR ''D'' then CHR ''d''
      else if c = CHR ''E'' then CHR ''e'' else if c = CHR ''F'' then CHR ''f'' else c)"

text \<open>\<^verbatim>\<open>ObjectId(s)\<close>: \<open>None\<close> is the \<^verbatim>\<open>InvalidId\<close> it raises on anything but 24 hex digits.\<close>

definition ObjectId :: "string \<Rightarrow> object_id option" where
  "ObjectId s = (if length s = 24 \<and> list_all is_hex s then Some (map lower_hex s) else None)"

definition str_of_id :: "object_id \<Rightarrow> string" where
  "str_of_id i = i"

datatype error =
    HTTPException nat string
  | RuntimeError string
  | TypeError string
  | StatisticsError string

subsection \<open>Request models (\<^verbatim>\<open>main.py\<close>)\<close>

record WeightIn =
  subject_id :: string
  class_name :: "string option"
  tugas :: rat
  kuis :: rat
  uts :: rat
  uas :: rat

subsection \<open>Stored documents\<close>

text \<open>
  The dictionary \<^verbatim>\<open>data\<close> handed to the store: the model's fields (\<open>body\<close>) and the two
  timestamps, each present or not. A stored document is that with its \<^verbatim>\<open>_id\<close>.
\<close>

record 'a data =
  created_at :: "datetime option"
  updated_at :: "datetime option"
  body :: 'a

record 'a document = "'a data" +
  oid :: object_id

record student_doc =
  full_name :: string
  student_number :: string
  class_name :: "string option"
  gender :: "string option"
  birth_date :: "datetime option"

record subject_doc =
  name :: string
  kkm :: "rat option"

record weight_doc =
  subject_id :: string
  class_name :: "string option"
  tugas :: "rat option"
  kuis :: "rat option"
  uts :: "rat option"
  uas :: "rat option"

record score_doc =
  student_id :: string
  subject_id :: string
  type :: string
  "value" :: "rat option"
  "note" :: "string option"
  date :: "datetime option"

record store =
  student :: "student_doc document list"
  subject :: "subject_doc document list"
  weight :: "weight_doc document list"
  score :: "score_doc document list"

type_synonym db = "store option"

text \<open>An operation on the handle: its result or the exception it raises, and the state after.\<close>

type_synonym 'a io = "db \<Rightarrow> (error + 'a) \<times> db"

definition io_return :: "'a \<Rightarrow> 'a io" where
  "io_return x s = (Inr x, s)"

definition io_raise :: "error \<Rightarrow> 'a io" where
  "io_raise e s = (Inl e, s)"

definition io_bind :: "'a io \<Rightarrow> ('a \<Rightarrow> 'b io) \<Rightarrow> 'b io" where
  "io_bind m f s = (case m s of (Inl e, s') \<Rightarrow> (Inl e, s') | (Inr x, s') \<Rightarrow> f x s')"

subsection \<open>The collections and the pymongo operations used\<close>

text \<open>\<^verbatim>\<open>db[name]\<close>: how to read the collection from the store and how to write it back.\<close>

record 'a collection =
  docs :: "store \<Rightarrow> 'a document list"
  put :: "'a document list \<Rightarrow> store \<Rightarrow> store"

definition student_coll :: "student_doc collection" where
  "student_coll = \<lparr>docs = store.student, put = (\<lambda>xs st. st\<lparr>store.student := xs\<rparr>)\<rparr>"

definition subject_coll :: "subject_doc collection" where
  "subject_coll = \<lparr>docs = store.subject, put = (\<lambda>xs st. st\<lparr>store.subject := xs\<rparr>)\<rparr>"

definition weight_coll :: "weight_doc collection" where
  "weight_coll = \<lparr>docs = store.weight, put = (\<lambda>xs st. st\<lparr>store.weight := xs\<rparr>)\<rparr>"

definition score_coll :: "score_doc collection" where
  "score_coll = \<lparr>docs = store.score, put = (\<lambda>xs st. st\<lparr>store.score := xs\<rparr>)\<rparr>"

text \<open>
  Subscripting the handle when it is \<^verbatim>\<open>None\<close> raises \<^verbatim>\<open>TypeError\<close>. A query filter is
  a predicate on documents; \<^verbatim>\<open>find_one\<close> returns the first match in insertion order.
\<close>

definition not_subscriptable :: error where
  "not_subscriptable = TypeError ''NoneType object is not subscriptable''"

definition find_one :: "'a collection \<Rightarrow> ('a document \<Rightarrow> bool) \<Rightarrow> 'a document option io" where
  "find_one c flt s =
     (case s of None \<Rightarrow> (Inl not_subscriptable, s)
      | Some st \<Rightarrow> (Inr (List.find flt (docs c st)), s))"

definition find_all :: "'a collection \<Rightarrow> ('a document \<Rightarrow> bool) \<Rightarrow> 'a document list io" where
  "find_all c flt s =
     (case s of None \<Rightarrow> (Inl not_subscriptable, s)
      | Some st \<Rightarrow> (Inr (filter flt (docs c st)), s))"

text \<open>\<^verbatim>\<open>insert_one\<close> appends the document under the identifier generated for it.\<close>

definition insert_one :: "'a collection \<Rightarrow> 'a data \<Rightarrow> object_id \<Rightarrow> object_id io" where
  "insert_one c d new_id s =
     (case s of None \<Rightarrow> (Inl not_subscriptable, s)
      | Some st \<Rightarrow>
          (Inr new_id,
           Some (put c (docs c st @
             [\<lparr>created_at = created_at d, updated_at = updated_at d, body = body d,
               oid = new_id\<rparr>]) st)))"

text \<open>\<^verbatim>\<open>{"$set": data}\<close>: every key of \<^verbatim>\<open>data\<close> is written, the other keys are kept.\<close>

definition set_fields :: "'a data \<Rightarrow> 'a document \<Rightarrow> 'a document" where
  "set_fields d x =
     x\<lparr>created_at := (case created_at d of None \<Rightarrow> created_at x | Some t \<Rightarrow> Some t),
       updated_at := (case updated_at d of None \<Rightarrow> updated_at x | Some t \<Rightarrow> Some t),
       body := body d\<rparr>"

fun update_first :: "('a \<Rightarrow> bool) \<Rightarrow> ('a \<Rightarrow> 'a) \<Rightarrow> 'a list \<Rightarrow> 'a list" where
  "update_first flt f [] = []"
| "update_first flt f (x # xs) = (if flt x then f x # xs else x # update_first flt f xs)"

definition update_one :: "'a collection \<Rightarrow> ('a document \<Rightarrow> bool) \<Rightarrow> 'a data \<Rightarrow> unit io" where
  "update_one c flt d s =
     (case s of None \<Rightarrow> (Inl not_subscriptable, s)
      | Some st \<Rightarrow> (Inr (), Some (put c (update_first flt (set_fields d) (docs c st)) st)))"

subsection \<open>\<^verbatim>\<open>database.py\<close>\<close>

definition create_document :: "'a collection \<Rightarrow> 'a data \<Rightarrow> datetime \<Rightarrow> object_id \<Rightarrow> string io" where
  "create_document c d now new_id s =
     (if s = None then (Inl (RuntimeError ''Database not initialized''), s)
      else
        let d1 = (if created_at d = None then d\<lparr>created_at := Some now\<rparr> else d);
            d2 = d1\<lparr>updated_at := Some now\<rparr>
        in io_bind (insert_one c d2 new_id) (\<lambda>inserted_id. io_return (str_of_id inserted_id)) s)"

text \<open>
  \<^verbatim>\<open>get_document_by_id\<close>: the \<^verbatim>\<open>try\<close> turns every exception of the lookup, the
  \<^verbatim>\<open>InvalidId\<close> of a malformed identifier among them, into \<^verbatim>\<open>None\<close>. The document
  returned keeps its \<open>oid\<close>; the key \<^verbatim>\<open>"id"\<close> that \<^verbatim>\<open>_to_str_id\<close> puts in its place
  is read as \<open>str_of_id (oid d)\<close>.
\<close>

definition get_document_by_id :: "'a collection \<Rightarrow> string \<Rightarrow> 'a document option io" where
  "get_document_by_id c doc_id s =
     (if s = None then (Inl (RuntimeError ''Database not initialized''), s)
      else
        (case ObjectId doc_id of
           None \<Rightarrow> (Inr None, s)
         | Some i \<Rightarrow>
             (case find_one c (\<lambda>d. oid d = i) s of
                (Inl e, s') \<Rightarrow> (Inr None, s')
              | (Inr doc, s') \<Rightarrow> (Inr doc, s'))))"

subsection \<open>\<^verbatim>\<open>main.py\<close>: writing a weight\<close>

definition model_dump :: "WeightIn \<Rightarrow> weight_doc" where
  "model_dump payload =
     \<lparr>weight_doc.subject_id = WeightIn.subject_id payload,
       class_name = WeightIn.class_name payload,
       tugas = Some (WeightIn.tugas payload), kuis = Some (WeightIn.kuis payload),
       uts = Some (WeightIn.uts payload), uas = Some (WeightIn.uas payload)\<rparr>"

text \<open>
  \<^verbatim>\<open>set_weight\<close>. \<open>now\<close> is the clock as \<^verbatim>\<open>set_weight\<close> reads it, \<open>now'\<close> as
  \<^verbatim>\<open>create_document\<close> reads it afterwards, \<open>new_id\<close> the identifier an insertion would
  generate. The response is the pair of \<^verbatim>\<open>"id"\<close> and the rest of the dictionary.
\<close>

definition set_weight :: "WeightIn \<Rightarrow> datetime \<Rightarrow> datetime \<Rightarrow> object_id \<Rightarrow> (string \<times> weight_doc data) io" where
  "set_weight payload now now' new_id =
     (let data0 = \<lparr>created_at = None, updated_at = None, body = model_dump payload\<rparr> in
      io_bind (find_one weight_coll
                 (\<lambda>w. weight_doc.subject_id (body w) = weight_doc.subject_id (body data0) \<and>
                      weight_doc.class_name (body w) = weight_doc.class_name (body data0)))
        (\<lambda>existing.
           let data1 = data0\<lparr>updated_at := Some now\<rparr> in
           (case existing of
              Some ex \<Rightarrow>
                io_bind (update_one weight_coll (\<lambda>w. oid w = oid ex) data1)
                  (\<lambda>_. io_return (str_of_id (oid ex), data1))
            | None \<Rightarrow>
                let data2 = data1\<lparr>created_at := Some now\<rparr> in
                io_bind (create_document weight_coll data2 now' new_id)
                  (\<lambda>weight_id. io_return (weight_id, data2)))))"

subsection \<open>\<^verbatim>\<open>main.py\<close>: the report\<close>

record student_out =
  id' :: string
  full_name :: string
  class_name :: "string option"

record subject_out =
  id' :: string
  name :: string
  kkm :: rat

record weights_out =
  tugas :: rat
  kuis :: rat
  uts :: rat
  uas :: rat

record component =
  type :: string
  average :: "rat option"
  weight :: rat
  weighted_score :: rat

record report =
  student :: student_out
  subject :: subject_out
  weights :: weights_out
  components :: "component list"
  final_score :: rat
  status :: string

text \<open>\<^verbatim>\<open>(weight or {}).get(key, default)\<close>\<close>

definition weight_get :: "weight_doc document option \<Rightarrow> (weight_doc \<Rightarrow> rat option) \<Rightarrow> rat \<Rightarrow> rat" where
  "weight_get w key default =
     (case w of None \<Rightarrow> default
      | Some d \<Rightarrow> (case key (body d) of None \<Rightarrow> default | Some x \<Rightarrow> x))"
  for w key default

text \<open>
  Lines 164 to 172 of \<^verbatim>\<open>generate_report\<close>, the weight resolver: the two lookups and the
  four reads with their defaults.
\<close>

definition resolve_weights :: "string \<Rightarrow> string option \<Rightarrow> (rat \<times> rat \<times> rat \<times> rat) io" where
  "resolve_weights subject_id class_name =
     io_bind (find_one weight_coll
                (\<lambda>w. weight_doc.subject_id (body w) = subject_id \<and>
                     weight_doc.class_name (body w) = class_name))
       (\<lambda>weight0.
          io_bind (if weight0 = None
                   then find_one weight_coll
                          (\<lambda>w. weight_doc.subject_id (body w) = subject_id \<and>
                               weight_doc.class_name (body w) = None)
                   else io_return weight0)
            (\<lambda>weight.
               let tugas_w = weight_get weight weight_doc.tugas 30;
                   kuis_w = weight_get weight weight_doc.kuis 20;
                   uts_w = weight_get weight weight_doc.uts 20;
                   uas_w = weight_get weight weight_doc.uas 30
               in io_return (tugas_w, kuis_w, uts_w, uas_w)))"
  for subject_id class_name

text \<open>\<^verbatim>\<open>statistics.mean\<close> raises on an empty list.\<close>

definition mean :: "rat list \<Rightarrow> error + rat" where
  "mean xs =
     (if xs = [] then Inl (StatisticsError ''mean requires at least one data point'')
      else Inr (sum_list xs / of_nat (length xs)))"

text \<open>The nested \<^verbatim>\<open>avg_of\<close>, with the two identifiers it closes over.\<close>

definition avg_of :: "string \<Rightarrow> string \<Rightarrow> string \<Rightarrow> rat option io" where
  "avg_of student_id subject_id t =
     io_bind (find_all score_coll
                (\<lambda>doc. score_doc.student_id (body doc) = student_id \<and>
                       score_doc.subject_id (body doc) = subject_id \<and>
                       score_doc.type (body doc) = t))
       (\<lambda>docs.
          if docs = [] then io_return None
          else
            (case mean (map (\<lambda>doc. case score_doc.value (body doc) of None \<Rightarrow> 0 | Some v \<Rightarrow> v) docs) of
               Inl e \<Rightarrow> io_raise e
             | Inr m \<Rightarrow> io_return (Some m)))"
  for student_id subject_id t

text \<open>The \<^verbatim>\<open>for\<close> loop over the four components, with its two accumulators.\<close>

fun weighted_components ::
  "(string \<times> rat option \<times> rat) list \<Rightarrow> component list \<Rightarrow> rat \<Rightarrow> component list \<times> rat" where
  "weighted_components [] components final = (components, final)"
  for components final
| "weighted_components ((name, avg_val, w) # rest) components final =
     (let comp_score = (case avg_val of None \<Rightarrow> 0 | Some a \<Rightarrow> a) * (w / 100)
      in weighted_components rest
           (components @
              [\<lparr>type = name, average = avg_val, weight = w, weighted_score = comp_score\<rparr>])
           (final + comp_score))"
  for name avg_val w rest components final

text \<open>\<^verbatim>\<open>round(x, ndigits)\<close> on a float: to the nearest, a tie to the even neighbour.\<close>

definition round_half_even :: "rat \<Rightarrow> int" where
  "round_half_even y =
     (let f = \<lfloor>y\<rfloor>; d = y - of_int f
      in if d < 1 / 2 then f else if 1 / 2 < d then f + 1 else if even f then f else f + 1)"

definition py_round :: "rat \<Rightarrow> nat \<Rightarrow> rat" where
  "py_round x ndigits = of_int (round_half_even (x * 10 ^ ndigits)) / 10 ^ ndigits"

definition generate_report :: "string \<Rightarrow> string \<Rightarrow> report io" where
  "generate_report student_id subject_id =
     io_bind (get_document_by_id student_coll student_id) (\<lambda>student.
     io_bind (get_document_by_id subject_coll subject_id) (\<lambda>subject.
       (case (student, subject) of
          (Some student', Some subject') \<Rightarrow>
            (let class_name = student_doc.class_name (body student') in
             io_bind (resolve_weights subject_id class_name) (\<lambda>(tugas_w, kuis_w, uts_w, uas_w).
               let total_w = tugas_w + kuis_w + uts_w + uas_w in
               if total_w = 0 then io_raise (HTTPException 400 ''Semua bobot 0'')
               else
                 io_bind (avg_of student_id subject_id ''tugas'') (\<lambda>tugas_avg.
                 io_bind (avg_of student_id subject_id ''kuis'') (\<lambda>kuis_avg.
                 io_bind (avg_of student_id subject_id ''uts'') (\<lambda>uts_avg.
                 io_bind (avg_of student_id subject_id ''uas'') (\<lambda>uas_avg.
                   let (components, final) =
                         weighted_components
                           [(''tugas'', tugas_avg, tugas_w), (''kuis'', kuis_avg, kuis_w),
                            (''uts'', uts_avg, uts_w), (''uas'', uas_avg, uas_w)] [] 0;
                       kkm = (case subject_doc.kkm (body subject') of None \<Rightarrow> 70 | Some k \<Rightarrow> k);
                       status = (if final \<ge> kkm then ''Tuntas'' else ''Belum Tuntas'')
                   in io_return
                        \<lparr>student =
                           \<lparr>student_out.id' = str_of_id (oid student'),
                             full_name = student_doc.full_name (body student'),
                             class_name = student_doc.class_name (body student')\<rparr>,
                         subject =
                           \<lparr>subject_out.id' = str_of_id (oid subject'),
                             name = subject_doc.name (body subject'), kkm = kkm\<rparr>,
                         weights = \<lparr>tugas = tugas_w, kuis = kuis_w, uts = uts_w, uas = uas_w\<rparr>,
                         components = components,
                         final_score = py_round final 2,
                         status = status\<rparr>))))))
        | _ \<Rightarrow> io_raise (HTTPException 404 ''Siswa atau mapel tidak ditemukan''))))"
  for student_id subject_id

subsection \<open>Notions used to state the properties\<close>

text \<open>The two errors of the report, by the names the specification gives them.\<close>

definition not_found :: error where
  "not_found = HTTPException 404 ''Siswa atau mapel tidak ditemukan''"

definition invalid_configuration :: error where
  "invalid_configuration = HTTPException 400 ''Semua bobot 0''"

definition average_or_zero :: "rat option \<Rightarrow> rat" where
  "average_or_zero a = (case a of None \<Rightarrow> 0 | Some x \<Rightarrow> x)"

text \<open>An identifier resolves in a collection: it is well formed and some document carries it.\<close>

definition resolves :: "'a document list \<Rightarrow> string \<Rightarrow> bool" where
  "resolves xs doc_id = (case ObjectId doc_id of None \<Rightarrow> False | Some i \<Rightarrow> i \<in> oid ` set xs)"

text \<open>
  The weight resolver as the specification words it (section 4.1): the record for exactly
  this subject and class, else the record of the subject with no class, else the constants.
  \<open>percentages\<close> reads the four values of a record, a missing one as its constant.
\<close>

definition in_scope :: "string \<Rightarrow> string option \<Rightarrow> weight_doc document \<Rightarrow> bool" where
  "in_scope subj cls w =
     (weight_doc.subject_id (body w) = subj \<and> weight_doc.class_name (body w) = cls)"

definition percentages :: "weight_doc document \<Rightarrow> rat \<times> rat \<times> rat \<times> rat" where
  "percentages w =
     ((case weight_doc.tugas (body w) of None \<Rightarrow> 30 | Some x \<Rightarrow> x),
      (case weight_doc.kuis (body w) of None \<Rightarrow> 20 | Some x \<Rightarrow> x),
      (case weight_doc.uts (body w) of None \<Rightarrow> 20 | Some x \<Rightarrow> x),
      (case weight_doc.uas (body w) of None \<Rightarrow> 30 | Some x \<Rightarrow> x))"

definition fallback_record :: "store \<Rightarrow> string \<Rightarrow> string option \<Rightarrow> weight_doc document option" where
  "fallback_record st subj cls =
     (case List.find (in_scope subj cls) (store.weight st) of
        Some w \<Rightarrow> Some w
      | None \<Rightarrow> List.find (in_scope subj None) (store.weight st))"

definition fallback_weights :: "store \<Rightarrow> string \<Rightarrow> string option \<Rightarrow> rat \<times> rat \<times> rat \<times> rat" where
  "fallback_weights st subj cls =
     (case List.find (in_scope subj cls) (store.weight st) of
        Some w \<Rightarrow> percentages w
      | None \<Rightarrow>
          (case List.find (in_scope subj None) (store.weight st) of
             Some w \<Rightarrow> percentages w
           | None \<Rightarrow> (30, 20, 20, 30)))"

text \<open>The score records of a student, a subject and an assessment type, and what each counts for.\<close>

definition matching_scores :: "store \<Rightarrow> string \<Rightarrow> string \<Rightarrow> string \<Rightarrow> score_doc document list" where
  "matching_scores st sid subj t =
     filter (\<lambda>d. score_doc.student_id (body d) = sid \<and> score_doc.subject_id (body d) = subj \<and>
                 score_doc.type (body d) = t) (store.score st)"

definition score_value :: "score_doc document \<Rightarrow> rat" where
  "score_value d = (case score_doc.value (body d) of None \<Rightarrow> 0 | Some v \<Rightarrow> v)"

text \<open>
  The composite key of a weight record and of a request, the invariant of the weight
  collection, and the uniqueness of \<^verbatim>\<open>_id\<close> that MongoDB enforces in every collection.
\<close>

definition weight_key :: "weight_doc document \<Rightarrow> string \<times> string option" where
  "weight_key w = (weight_doc.subject_id (body w), weight_doc.class_name (body w))"

definition payload_key :: "WeightIn \<Rightarrow> string \<times> string option" where
  "payload_key payload = (WeightIn.subject_id payload, WeightIn.class_name payload)"

definition one_weight_per_pair :: "store \<Rightarrow> bool" where
  "one_weight_per_pair st = distinct (map weight_key (store.weight st))"

definition unique_ids :: "store \<Rightarrow> bool" where
  "unique_ids st = distinct (map oid (store.weight st))"

definition overwritten :: "WeightIn \<Rightarrow> datetime \<Rightarrow> weight_doc document \<Rightarrow> weight_doc document" where
  "overwritten payload now w = w\<lparr>updated_at := Some now, body := model_dump payload\<rparr>"

definition created :: "WeightIn \<Rightarrow> datetime \<Rightarrow> datetime \<Rightarrow> object_id \<Rightarrow> weight_doc document" where
  "created payload now now' new_id =
     \<lparr>created_at = Some now, updated_at = Some now', body = model_dump payload, oid = new_id\<rparr>"

subsection \<open>Example stores\<close>

definition budi :: "student_doc document" where
  "budi =
     \<lparr>created_at = Some 1, updated_at = Some 1,
       body = \<lparr>student_doc.full_name = ''Budi'', student_number = ''1001'',
                class_name = Some ''VIIA'', gender = None, birth_date = None\<rparr>,
       oid = ''64b7f0a1c2d3e4f5a6b7c801''\<rparr>"

definition matematika :: "subject_doc document" where
  "matematika =
     \<lparr>created_at = Some 2, updated_at = Some 2,
       body = \<lparr>subject_doc.name = ''Matematika'', kkm = Some 70\<rparr>,
       oid = ''64b7f0a1c2d3e4f5a6b7c802''\<rparr>"

definition score_of :: "object_id \<Rightarrow> string \<Rightarrow> rat \<Rightarrow> score_doc document" where
  "score_of i t v =
     \<lparr>created_at = Some 3, updated_at = Some 3,
       body = \<lparr>score_doc.student_id = ''64b7f0a1c2d3e4f5a6b7c801'',
                subject_id = ''64b7f0a1c2d3e4f5a6b7c802'', type = t, value = Some v,
                note = None, date = Some 3\<rparr>,
       oid = i\<rparr>"

definition weight_of ::
  "object_id \<Rightarrow> string \<Rightarrow> string option \<Rightarrow> rat option \<Rightarrow> rat option \<Rightarrow> rat option \<Rightarrow> rat option
     \<Rightarrow> weight_doc document" where
  "weight_of i subj cls a b c d =
     \<lparr>created_at = Some 4, updated_at = Some 4,
       body = \<lparr>weight_doc.subject_id = subj, class_name = cls,
                tugas = a, kuis = b, uts = c, uas = d\<rparr>,
       oid = i\<rparr>"

text \<open>
  The scenario of the specification: no weight record, task 80, quizzes 60 and 80, no
  midterm, final 75, threshold 70.
\<close>

definition rapor_store :: store where
  "rapor_store =
     \<lparr>store.student = [budi], subject = [matematika], weight = [],
       score = [score_of ''64b7f0a1c2d3e4f5a6b7c811'' ''tugas'' 80,
                score_of ''64b7f0a1c2d3e4f5a6b7c812'' ''kuis'' 60,
                score_of ''64b7f0a1c2d3e4f5a6b7c813'' ''kuis'' 80,
                score_of ''64b7f0a1c2d3e4f5a6b7c814'' ''uas'' 75]\<rparr>"

definition rapor_report :: report where
  "rapor_report =
     \<lparr>student = \<lparr>student_out.id' = ''64b7f0a1c2d3e4f5a6b7c801'', full_name = ''Budi'',
                  class_name = Some ''VIIA''\<rparr>,
       subject = \<lparr>subject_out.id' = ''64b7f0a1c2d3e4f5a6b7c802'', name = ''Matematika'',
                  kkm = 70\<rparr>,
       weights = \<lparr>tugas = 30, kuis = 20, uts = 20, uas = 30\<rparr>,
       components =
         [\<lparr>type = ''tugas'', average = Some 80, weight = 30, weighted_score = 24\<rparr>,
          \<lparr>type = ''kuis'', average = Some 70, weight = 20, weighted_score = 14\<rparr>,
          \<lparr>type = ''uts'', average = None, weight = 20, weighted_score = 0\<rparr>,
          \<lparr>type = ''uas'', average = Some 75, weight = 30, weighted_score = 45 / 2\<rparr>],
       final_score = 121 / 2,
       status = ''Belum Tuntas''\<rparr>"

text \<open>
  Three weight records: the subject-wide one and the one of class VIIA for the subject of
  \<open>rapor_store\<close>, and for another subject a subject-wide record with two values missing.
\<close>

definition bobot_store :: store where
  "bobot_store = rapor_store
     \<lparr>store.weight :=
        [weight_of ''64b7f0a1c2d3e4f5a6b7c821'' ''64b7f0a1c2d3e4f5a6b7c802'' None
           (Some 25) (Some 25) (Some 25) (Some 25),
         weight_of ''64b7f0a1c2d3e4f5a6b7c822'' ''64b7f0a1c2d3e4f5a6b7c802'' (Some ''VIIA'')
           (Some 40) (Some 10) (Some 20) (Some 30),
         weight_of ''64b7f0a1c2d3e4f5a6b7c823'' ''64b7f0a1c2d3e4f5a6b7c803'' None
           (Some 50) None None (Some 10)]\<rparr>"

definition bobot_baru :: WeightIn where
  "bobot_baru =
     \<lparr>WeightIn.subject_id = ''64b7f0a1c2d3e4f5a6b7c802'', class_name = Some ''VIIA'',
       tugas = 10, kuis = 20, uts = 30, uas = 40\<rparr>"

text \<open>All four weights of the class are zero.\<close>

definition nol_store :: store where
  "nol_store = rapor_store
     \<lparr>store.weight :=
        [weight_of ''64b7f0a1c2d3e4f5a6b7c821'' ''64b7f0a1c2d3e4f5a6b7c802'' (Some ''VIIA'')
           (Some 0) (Some 0) (Some 0) (Some 0)]\<rparr>"



section \<open>Running the operations on a connected store\<close>

lemma find_one_Some: "find_one c flt (Some st) = (Inr (List.find flt (docs c st)), Some st)"
  by (simp add: find_one_def)

lemma find_all_Some: "find_all c flt (Some st) = (Inr (filter flt (docs c st)), Some st)"
  by (simp add: find_all_def)

lemma get_document_by_id_Some:
  "get_document_by_id c doc_id (Some st) =
     (Inr (case ObjectId doc_id of None \<Rightarrow> None
           | Some i \<Rightarrow> List.find (\<lambda>d. oid d = i) (docs c st)), Some st)"
  by (simp add: get_document_by_id_def find_one_Some split: option.splits)

lemma get_document_by_id_None:
  "get_document_by_id c doc_id None = (Inl (RuntimeError ''Database not initialized''), None)"
  by (simp add: get_document_by_id_def)

lemma docs_colls [simp]:
  "docs student_coll = store.student" "docs subject_coll = store.subject"
  "docs weight_coll = store.weight" "docs score_coll = store.score"
  by (simp_all add: student_coll_def subject_coll_def weight_coll_def score_coll_def)

lemma put_weight [simp]: "put weight_coll xs st = st\<lparr>store.weight := xs\<rparr>"
  by (simp add: weight_coll_def)

lemma get_document_by_id_total:
  "\<exists>d. get_document_by_id c i (Some st) = (Inr d, Some st)"
  by (simp add: get_document_by_id_Some)

lemma find_None_iff_image: "List.find (\<lambda>d. f d = i) xs = None \<longleftrightarrow> i \<notin> f ` set xs"
  by (auto simp: find_None_iff)

lemma get_document_by_id_resolves:
  "get_document_by_id c doc_id (Some st) = (Inr None, Some st) \<longleftrightarrow> \<not> resolves (docs c st) doc_id"
  by (simp add: get_document_by_id_Some resolves_def find_None_iff_image split: option.splits)

subsection \<open>The weight resolver\<close>

lemma resolve_weights_Some:
  "resolve_weights subj cls (Some st) =
     (let weight0 = List.find (\<lambda>w. weight_doc.subject_id (body w) = subj \<and>
                                  weight_doc.class_name (body w) = cls) (store.weight st);
          weight = (if weight0 = None
                    then List.find (\<lambda>w. weight_doc.subject_id (body w) = subj \<and>
                                  weight_doc.class_name (body w) = None) (store.weight st)
                    else weight0)
      in (Inr (weight_get weight weight_doc.tugas 30, weight_get weight weight_doc.kuis 20,
               weight_get weight weight_doc.uts 20, weight_get weight weight_doc.uas 30), Some st))"
  by (simp add: resolve_weights_def io_bind_def io_return_def find_one_Some Let_def)

lemma resolve_weights_total:
  "\<exists>tw kw uw fw. resolve_weights subj cls (Some st) = (Inr (tw, kw, uw, fw), Some st)"
  by (simp add: resolve_weights_Some Let_def)

lemma resolve_weights_fallback:
  "resolve_weights subj cls (Some st) =
     (Inr (weight_get (fallback_record st subj cls) weight_doc.tugas 30,
           weight_get (fallback_record st subj cls) weight_doc.kuis 20,
           weight_get (fallback_record st subj cls) weight_doc.uts 20,
           weight_get (fallback_record st subj cls) weight_doc.uas 30), Some st)"
proof -
  have "in_scope subj cls =
          (\<lambda>w. weight_doc.subject_id (body w) = subj \<and> weight_doc.class_name (body w) = cls)"
    "in_scope subj None =
          (\<lambda>w. weight_doc.subject_id (body w) = subj \<and> weight_doc.class_name (body w) = None)"
    by (simp_all add: in_scope_def fun_eq_iff)
  then show ?thesis
    by (simp add: resolve_weights_Some fallback_record_def Let_def split: option.splits)
qed

subsection \<open>The score aggregator and the loop\<close>

lemma avg_of_Some:
  "avg_of sid subj t (Some st) =
     (let docs = filter (\<lambda>doc. score_doc.student_id (body doc) = sid \<and>
                       score_doc.subject_id (body doc) = subj \<and>
                       score_doc.type (body doc) = t) (store.score st)
      in (Inr (if docs = [] then None
               else Some (sum_list (map (\<lambda>doc. case score_doc.value (body doc) of
                                               None \<Rightarrow> 0 | Some v \<Rightarrow> v) docs)
                          / of_nat (length docs))), Some st))"
  by (simp add: avg_of_def io_bind_def io_return_def io_raise_def find_all_Some Let_def mean_def)

lemma avg_of_total: "\<exists>a. avg_of sid subj t (Some st) = (Inr a, Some st)"
  by (simp add: avg_of_Some Let_def)

lemma weighted_components_acc:
  "weighted_components xs comps fin =
     (comps @ map (\<lambda>(nm, avg_val, w).
          \<lparr>type = nm, average = avg_val, weight = w,
            weighted_score = (case avg_val of None \<Rightarrow> 0 | Some a \<Rightarrow> a) * (w / 100)\<rparr>) xs,
      fin + sum_list (map (\<lambda>(nm, avg_val, w).
                            (case avg_val of None \<Rightarrow> 0 | Some a \<Rightarrow> a) * (w / 100)) xs))"
  by (induction xs arbitrary: comps fin) (auto simp: Let_def)

subsection \<open>Rounding\<close>



subsection \<open>The three outcomes of the report\<close>

lemma generate_report_None:
  "generate_report sid subj None = (Inl (RuntimeError ''Database not initialized''), None)"
  by (simp add: generate_report_def io_bind_def get_document_by_id_None)

lemma generate_report_not_found:
  assumes stu: "get_document_by_id student_coll sid (Some st) = (Inr stu, Some st)"
    and sub: "get_document_by_id subject_coll subj (Some st) = (Inr sub, Some st)"
    and n: "stu = None \<or> sub = None"
  shows "generate_report sid subj (Some st) = (Inl not_found, Some st)"
  using n
  by (auto simp add: generate_report_def io_bind_def io_return_def io_raise_def stu sub
      not_found_def split: option.splits)

lemma generate_report_zero_weight:
  assumes stu: "get_document_by_id student_coll sid (Some st) = (Inr (Some stu), Some st)"
    and sub: "get_document_by_id subject_coll subj (Some st) = (Inr (Some sub), Some st)"
    and w: "resolve_weights subj (student_doc.class_name (body stu)) (Some st)
              = (Inr (tw, kw, uw, fw), Some st)"
    and z: "tw + kw + uw + fw = 0"
  shows "generate_report sid subj (Some st) = (Inl invalid_configuration, Some st)"
  using z
  by (simp add: generate_report_def io_bind_def io_return_def io_raise_def stu sub w
      invalid_configuration_def)

lemma generate_report_success:
  assumes stu: "get_document_by_id student_coll sid (Some st) = (Inr (Some stu), Some st)"
    and sub: "get_document_by_id subject_coll subj (Some st) = (Inr (Some sub), Some st)"
    and w: "resolve_weights subj (student_doc.class_name (body stu)) (Some st)
              = (Inr (tw, kw, uw, fw), Some st)"
    and nz: "tw + kw + uw + fw \<noteq> 0"
    and ta: "avg_of sid subj ''tugas'' (Some st) = (Inr ta, Some st)"
    and ka: "avg_of sid subj ''kuis'' (Some st) = (Inr ka, Some st)"
    and ua: "avg_of sid subj ''uts'' (Some st) = (Inr ua, Some st)"
    and fa: "avg_of sid subj ''uas'' (Some st) = (Inr fa, Some st)"
  shows "generate_report sid subj (Some st) =
    (Inr \<lparr>student = \<lparr>student_out.id' = str_of_id (oid stu),
                      full_name = student_doc.full_name (body stu),
                      class_name = student_doc.class_name (body stu)\<rparr>,
          subject = \<lparr>subject_out.id' = str_of_id (oid sub),
                      name = subject_doc.name (body sub),
                      kkm = (case subject_doc.kkm (body sub) of None \<Rightarrow> 70 | Some k \<Rightarrow> k)\<rparr>,
          weights = \<lparr>tugas = tw, kuis = kw, uts = uw, uas = fw\<rparr>,
          components =
            [\<lparr>type = ''tugas'', average = ta, weight = tw,
              weighted_score = average_or_zero ta * (tw / 100)\<rparr>,
             \<lparr>type = ''kuis'', average = ka, weight = kw,
              weighted_score = average_or_zero ka * (kw / 100)\<rparr>,
             \<lparr>type = ''uts'', average = ua, weight = uw,
              weighted_score = average_or_zero ua * (uw / 100)\<rparr>,
             \<lparr>type = ''uas'', average = fa, weight = fw,
              weighted_score = average_or_zero fa * (fw / 100)\<rparr>],
          final_score =
            py_round (average_or_zero ta * (tw / 100) + average_or_zero ka * (kw / 100)
                      + average_or_zero ua * (uw / 100) + average_or_zero fa * (fw / 100)) 2,
          status =
            (if average_or_zero ta * (tw / 100) + average_or_zero ka * (kw / 100)
                  + average_or_zero ua * (uw / 100) + average_or_zero fa * (fw / 100)
                  \<ge> (case subject_doc.kkm (body sub) of None \<Rightarrow> 70 | Some k \<Rightarrow> k)
             then ''Tuntas'' else ''Belum Tuntas'')\<rparr>, Some st)"
  using nz
  by (simp add: generate_report_def io_bind_def io_return_def io_raise_def stu sub w ta ka ua fa
      weighted_components_acc average_or_zero_def Let_def add.assoc)

lemma generate_report_cases:
  obtains (not_found) "generate_report sid subj (Some st) = (Inl not_found, Some st)"
     and "get_document_by_id student_coll sid (Some st) = (Inr None, Some st)
          \<or> get_document_by_id subject_coll subj (Some st) = (Inr None, Some st)"
  | (invalid) stu sub tw kw uw fw where
      "generate_report sid subj (Some st) = (Inl invalid_configuration, Some st)"
      "get_document_by_id student_coll sid (Some st) = (Inr (Some stu), Some st)"
      "get_document_by_id subject_coll subj (Some st) = (Inr (Some sub), Some st)"
      "resolve_weights subj (student_doc.class_name (body stu)) (Some st)
         = (Inr (tw, kw, uw, fw), Some st)"
      "tw + kw + uw + fw = 0"
  | (success) stu sub tw kw uw fw ta ka ua fa where
      "get_document_by_id student_coll sid (Some st) = (Inr (Some stu), Some st)"
      "get_document_by_id subject_coll subj (Some st) = (Inr (Some sub), Some st)"
      "resolve_weights subj (student_doc.class_name (body stu)) (Some st)
         = (Inr (tw, kw, uw, fw), Some st)"
      "tw + kw + uw + fw \<noteq> 0"
      "avg_of sid subj ''tugas'' (Some st) = (Inr ta, Some st)"
      "avg_of sid subj ''kuis'' (Some st) = (Inr ka, Some st)"
      "avg_of sid subj ''uts'' (Some st) = (Inr ua, Some st)"
      "avg_of sid subj ''uas'' (Some st) = (Inr fa, Some st)"
proof -
  obtain stu where stu: "get_document_by_id student_coll sid (Some st) = (Inr stu, Some st)"
    using get_document_by_id_total by blast
  obtain sub where sub: "get_document_by_id subject_coll subj (Some st) = (Inr sub, Some st)"
    using get_document_by_id_total by blast
  show thesis
  proof (cases "stu = None \<or> sub = None")
    case True
    then show thesis
      using not_found generate_report_not_found [OF stu sub] stu sub by blast
  next
    case False
    then obtain stu' sub' where some: "stu = Some stu'" "sub = Some sub'" by auto
    obtain tw kw uw fw where
      w: "resolve_weights subj (student_doc.class_name (body stu')) (Some st)
            = (Inr (tw, kw, uw, fw), Some st)"
      using resolve_weights_total by blast
    show thesis
    proof (cases "tw + kw + uw + fw = 0")
      case True
      then show thesis
        using invalid generate_report_zero_weight [OF stu [unfolded some] sub [unfolded some] w]
          stu sub w some by blast
    next
      case False
      obtain ta ka ua fa where
        "avg_of sid subj ''tugas'' (Some st) = (Inr ta, Some st)"
        "avg_of sid subj ''kuis'' (Some st) = (Inr ka, Some st)"
        "avg_of sid subj ''uts'' (Some st) = (Inr ua, Some st)"
        "avg_of sid subj ''uas'' (Some st) = (Inr fa, Some st)"
        using avg_of_total by metis
      then show thesis
        using success stu sub w some False by blast
    qed
  qed
qed


subsection \<open>Writing a weight\<close>

lemma set_weight_Some:
  "set_weight payload now now' new_id (Some st) =
     (case List.find (\<lambda>w. weight_key w = payload_key payload) (store.weight st) of
        Some ex \<Rightarrow>
          (Inr (str_of_id (oid ex),
                \<lparr>created_at = None, updated_at = Some now, body = model_dump payload\<rparr>),
           Some (st\<lparr>store.weight :=
                    update_first (\<lambda>w. oid w = oid ex) (overwritten payload now) (store.weight st)\<rparr>))
      | None \<Rightarrow>
          (Inr (str_of_id new_id,
                \<lparr>created_at = Some now, updated_at = Some now, body = model_dump payload\<rparr>),
           Some (st\<lparr>store.weight := store.weight st @ [created payload now now' new_id]\<rparr>)))"
proof -
  have k: "(\<lambda>w. weight_doc.subject_id (body w) = WeightIn.subject_id payload \<and>
               weight_doc.class_name (body w) = WeightIn.class_name payload)
           = (\<lambda>w. weight_key w = payload_key payload)"
    by (simp add: fun_eq_iff weight_key_def payload_key_def)
  have o: "set_fields \<lparr>created_at = None, updated_at = Some now, body = model_dump payload\<rparr>
           = overwritten payload now"
    by (simp add: fun_eq_iff set_fields_def overwritten_def)
  show ?thesis
    unfolding k [symmetric] o [symmetric]
    by (simp add: set_weight_def io_bind_def io_return_def find_one_Some update_one_def
        create_document_def insert_one_def Let_def created_def model_dump_def
        split: option.splits)
qed

lemma update_first_split:
  assumes "List.find P xs = Some x"
  shows "\<exists>pre post. xs = pre @ x # post \<and> (\<forall>y \<in> set pre. \<not> P y) \<and>
           update_first P f xs = pre @ f x # post"
  using assms
proof (induction xs)
  case Nil
  then show ?case by simp
next
  case (Cons a xs)
  show ?case
  proof (cases "P a")
    case True
    with Cons.prems have "a = x" by simp
    with True have "a # xs = [] @ x # xs \<and> (\<forall>y \<in> set []. \<not> P y) \<and>
        update_first P f (a # xs) = [] @ f x # xs"
      by simp
    then show ?thesis by blast
  next
    case False
    with Cons.prems have "List.find P xs = Some x" by simp
    from Cons.IH [OF this] obtain pre post where
      "xs = pre @ x # post" "\<forall>y \<in> set pre. \<not> P y" "update_first P f xs = pre @ f x # post"
      by blast
    with False have "a # xs = (a # pre) @ x # post \<and> (\<forall>y \<in> set (a # pre). \<not> P y) \<and>
        update_first P f (a # xs) = (a # pre) @ f x # post"
      by simp
    then show ?thesis by blast
  qed
qed

lemma find_by_distinct:
  assumes "distinct (map f xs)" "x \<in> set xs"
  shows "List.find (\<lambda>y. f y = f x) xs = Some x"
  using assms by (induction xs) auto

lemma weight_key_model_dump [simp]:
  "weight_key (overwritten payload now w) = payload_key payload"
  "weight_key (created payload now now' new_id) = payload_key payload"
  by (simp_all add: weight_key_def payload_key_def overwritten_def created_def model_dump_def)

lemma oid_overwritten [simp]: "oid (overwritten payload now w) = oid w"
  by (simp add: overwritten_def)

lemma find_key_None_iff:
  "List.find (\<lambda>w. weight_key w = k) xs = None \<longleftrightarrow> k \<notin> weight_key ` set xs"
  by (auto simp: find_None_iff)

lemma set_weight_existing:
  assumes ids: "unique_ids st"
    and ex: "List.find (\<lambda>w. weight_key w = payload_key payload) (store.weight st) = Some ex"
  shows "\<exists>pre post. store.weight st = pre @ ex # post \<and> weight_key ex = payload_key payload \<and>
           set_weight payload now now' new_id (Some st) =
             (Inr (str_of_id (oid ex),
                   \<lparr>created_at = None, updated_at = Some now, body = model_dump payload\<rparr>),
              Some (st\<lparr>store.weight := pre @ overwritten payload now ex # post\<rparr>))"
proof -
  from ex have mem: "ex \<in> set (store.weight st)" and key: "weight_key ex = payload_key payload"
    by (auto simp: find_Some_iff)
  from ids mem have "List.find (\<lambda>w. oid w = oid ex) (store.weight st) = Some ex"
    unfolding unique_ids_def by (rule find_by_distinct)
  from update_first_split [OF this, of "overwritten payload now"] obtain pre post where
    "store.weight st = pre @ ex # post"
    "update_first (\<lambda>w. oid w = oid ex) (overwritten payload now) (store.weight st)
       = pre @ overwritten payload now ex # post"
    by blast
  moreover have "set_weight payload now now' new_id (Some st) =
      (Inr (str_of_id (oid ex),
            \<lparr>created_at = None, updated_at = Some now, body = model_dump payload\<rparr>),
       Some (st\<lparr>store.weight :=
                update_first (\<lambda>w. oid w = oid ex) (overwritten payload now) (store.weight st)\<rparr>))"
    by (simp add: set_weight_Some ex)
  ultimately show ?thesis
    using key by auto
qed

lemma set_weight_new:
  assumes "List.find (\<lambda>w. weight_key w = payload_key payload) (store.weight st) = None"
  shows "set_weight payload now now' new_id (Some st) =
           (Inr (str_of_id new_id,
                 \<lparr>created_at = Some now, updated_at = Some now, body = model_dump payload\<rparr>),
            Some (st\<lparr>store.weight := store.weight st @ [created payload now now' new_id]\<rparr>))"
  using assms by (simp add: set_weight_Some)

subsection \<open>The example stores\<close>







lemma generate_report_rapor:
  "generate_report ''64b7f0a1c2d3e4f5a6b7c801'' ''64b7f0a1c2d3e4f5a6b7c802'' (Some rapor_store)
     = (Inr rapor_report, Some rapor_store)"
  by code_simp





lemma not_resolves_examples:
  "\<not> resolves (store.student rapor_store) ''budi''"
  "\<not> resolves (store.subject rapor_store) ''64b7f0a1c2d3e4f5a6b7c8ff''"
  by (simp_all add: resolves_def ObjectId_def is_hex_def lower_hex_def rapor_store_def
      matematika_def)

lemma bobot_store_invariants: "unique_ids bobot_store" "one_weight_per_pair bobot_store"
  by (simp_all add: unique_ids_def one_weight_per_pair_def bobot_store_def weight_of_def
      weight_key_def)

section \<open>The claims\<close>






text \<open>
  Claim C3. On a connected store the weight resolver never fails and returns the values
  of the first record for exactly this subject and class, else those of the first record
  of the subject with no class, else 30, 20, 20, 30. It is a function of the store, the
  subject and the class alone.
\<close>

theorem weight_resolution_three_level_fallback:
  "resolve_weights subj cls (Some st) = (Inr (fallback_weights st subj cls), Some st)"
  by (simp add: resolve_weights_fallback fallback_record_def fallback_weights_def weight_get_def
      percentages_def split: option.splits)

theorem weight_resolution_three_level_fallback_witness:
  "resolve_weights ''64b7f0a1c2d3e4f5a6b7c802'' (Some ''VIIA'') (Some bobot_store)
     = (Inr (40, 10, 20, 30), Some bobot_store) \<and>
   resolve_weights ''64b7f0a1c2d3e4f5a6b7c802'' (Some ''VIIB'') (Some bobot_store)
     = (Inr (25, 25, 25, 25), Some bobot_store) \<and>
   resolve_weights ''64b7f0a1c2d3e4f5a6b7c80f'' (Some ''VIIA'') (Some bobot_store)
     = (Inr (30, 20, 20, 30), Some bobot_store)"
proof -
  have "fallback_weights bobot_store ''64b7f0a1c2d3e4f5a6b7c802'' (Some ''VIIA'') = (40, 10, 20, 30)"
    "fallback_weights bobot_store ''64b7f0a1c2d3e4f5a6b7c802'' (Some ''VIIB'') = (25, 25, 25, 25)"
    "fallback_weights bobot_store ''64b7f0a1c2d3e4f5a6b7c80f'' (Some ''VIIA'') = (30, 20, 20, 30)"
    by (simp_all add: fallback_weights_def bobot_store_def weight_of_def in_scope_def
        percentages_def)
  then show ?thesis
    using weight_resolution_three_level_fallback
        [of "''64b7f0a1c2d3e4f5a6b7c802''" "Some ''VIIA''" bobot_store]
      weight_resolution_three_level_fallback
        [of "''64b7f0a1c2d3e4f5a6b7c802''" "Some ''VIIB''" bobot_store]
      weight_resolution_three_level_fallback
        [of "''64b7f0a1c2d3e4f5a6b7c80f''" "Some ''VIIA''" bobot_store]
    by simp
qed



text \<open>
  Claim C5. For every student, subject and assessment type the aggregator returns the
  plain arithmetic mean of the values of all score records of that triple, unrounded, and
  the absence marker when there is none. It reads no record of another type. A record
  without a value counts as 0, as \<^verbatim>\<open>doc.get("value", 0)\<close> has it.
\<close>

theorem avg_of_is_arithmetic_mean:
  "avg_of sid subj t (Some st) =
     (Inr (if matching_scores st sid subj t = [] then None
           else Some (sum_list (map score_value (matching_scores st sid subj t))
                      / of_nat (length (matching_scores st sid subj t)))), Some st)"
proof -
  have "score_value = (\<lambda>doc. case score_doc.value (body doc) of None \<Rightarrow> 0 | Some v \<Rightarrow> v)"
    by (simp add: fun_eq_iff score_value_def)
  then show ?thesis
    by (simp add: avg_of_Some matching_scores_def Let_def)
qed

theorem avg_of_is_arithmetic_mean_witness:
  "avg_of ''64b7f0a1c2d3e4f5a6b7c801'' ''64b7f0a1c2d3e4f5a6b7c802'' ''kuis'' (Some rapor_store)
     = (Inr (Some ((60 + 80) / 2)), Some rapor_store) \<and>
   avg_of ''64b7f0a1c2d3e4f5a6b7c801'' ''64b7f0a1c2d3e4f5a6b7c802'' ''uts'' (Some rapor_store)
     = (Inr None, Some rapor_store)"
  using avg_of_is_arithmetic_mean
      [of "''64b7f0a1c2d3e4f5a6b7c801''" "''64b7f0a1c2d3e4f5a6b7c802''" "''kuis''" rapor_store]
    avg_of_is_arithmetic_mean
      [of "''64b7f0a1c2d3e4f5a6b7c801''" "''64b7f0a1c2d3e4f5a6b7c802''" "''uts''" rapor_store]
  by (simp add: matching_scores_def score_value_def rapor_store_def score_of_def)

text \<open>
  Claim C6. When the student identifier or the subject identifier does not resolve, being
  malformed or carried by no document of the collection (a dangling reference), the report
  fails with HTTP 404 and its message; there is no report.
\<close>

theorem unresolved_identifier_is_not_found:
  assumes "\<not> resolves (store.student st) sid \<or> \<not> resolves (store.subject st) subj"
  shows "generate_report sid subj (Some st)
           = (Inl (HTTPException 404 ''Siswa atau mapel tidak ditemukan''), Some st)"
proof -
  obtain stu where stu: "get_document_by_id student_coll sid (Some st) = (Inr stu, Some st)"
    using get_document_by_id_total by blast
  obtain sub where sub: "get_document_by_id subject_coll subj (Some st) = (Inr sub, Some st)"
    using get_document_by_id_total by blast
  have "stu = None \<or> sub = None"
    using assms stu sub get_document_by_id_resolves [of student_coll sid st]
      get_document_by_id_resolves [of subject_coll subj st] by auto
  then show ?thesis
    using generate_report_not_found [OF stu sub] by (simp add: not_found_def)
qed

theorem unresolved_identifier_is_not_found_witness:
  "\<not> resolves (store.student rapor_store) ''budi'' \<and>
   \<not> resolves (store.subject rapor_store) ''64b7f0a1c2d3e4f5a6b7c8ff'' \<and>
   generate_report ''budi'' ''64b7f0a1c2d3e4f5a6b7c802'' (Some rapor_store)
     = (Inl (HTTPException 404 ''Siswa atau mapel tidak ditemukan''), Some rapor_store) \<and>
   generate_report ''64b7f0a1c2d3e4f5a6b7c801'' ''64b7f0a1c2d3e4f5a6b7c8ff'' (Some rapor_store)
     = (Inl (HTTPException 404 ''Siswa atau mapel tidak ditemukan''), Some rapor_store)"
  using not_resolves_examples
    unresolved_identifier_is_not_found
      [of rapor_store "''budi''" "''64b7f0a1c2d3e4f5a6b7c802''"]
    unresolved_identifier_is_not_found
      [of rapor_store "''64b7f0a1c2d3e4f5a6b7c801''" "''64b7f0a1c2d3e4f5a6b7c8ff''"]
  by simp

text \<open>
  Claim C7. Writing a weight is an upsert on the pair of subject and class. If a record of
  the pair exists, it is overwritten where it stands and keeps its identifier; otherwise
  one record is appended. So a collection with at most one record per pair has at most
  one record per pair after the write. The other collections are untouched. The store is
  taken with the unique \<^verbatim>\<open>_id\<close> that MongoDB keeps.
\<close>

theorem set_weight_is_upsert:
  assumes "unique_ids st" and "one_weight_per_pair st"
  shows "\<exists>st' wid d.
     set_weight payload now now' new_id (Some st) = (Inr (wid, d), Some st') \<and>
     one_weight_per_pair st' \<and>
     (new_id \<notin> oid ` set (store.weight st) \<longrightarrow> unique_ids st') \<and>
     store.student st' = store.student st \<and> store.subject st' = store.subject st \<and>
     store.score st' = store.score st \<and>
     (if payload_key payload \<in> weight_key ` set (store.weight st)
      then \<exists>pre ex post.
             store.weight st = pre @ ex # post \<and> weight_key ex = payload_key payload \<and>
             store.weight st' = pre @ ex\<lparr>updated_at := Some now, body := model_dump payload\<rparr> # post \<and>
             map oid (store.weight st') = map oid (store.weight st) \<and>
             wid = str_of_id (oid ex)
      else store.weight st' =
             store.weight st @
               [\<lparr>created_at = Some now, updated_at = Some now', body = model_dump payload,
                 oid = new_id\<rparr>] \<and>
           wid = str_of_id new_id)"
proof (cases "List.find (\<lambda>w. weight_key w = payload_key payload) (store.weight st)")
  case None
  then have notin: "payload_key payload \<notin> weight_key ` set (store.weight st)"
    by (simp add: find_key_None_iff)
  let ?st' = "st\<lparr>store.weight := store.weight st @ [created payload now now' new_id]\<rparr>"
  have "one_weight_per_pair ?st'"
    using assms(2) notin by (simp add: one_weight_per_pair_def)
  moreover have "new_id \<notin> oid ` set (store.weight st) \<longrightarrow> unique_ids ?st'"
    using assms(1) by (simp add: unique_ids_def created_def)
  ultimately show ?thesis
    using notin set_weight_new [OF None, of now now' new_id]
    by (simp add: created_def)
next
  case (Some ex)
  then have "payload_key payload \<in> weight_key ` set (store.weight st)"
    using find_key_None_iff [of "payload_key payload" "store.weight st"] by simp
  moreover
  from set_weight_existing [OF assms(1) Some, of now now' new_id] obtain pre post where
    w: "store.weight st = pre @ ex # post" and key: "weight_key ex = payload_key payload"
    and run: "set_weight payload now now' new_id (Some st) =
             (Inr (str_of_id (oid ex),
                   \<lparr>created_at = None, updated_at = Some now, body = model_dump payload\<rparr>),
              Some (st\<lparr>store.weight := pre @ overwritten payload now ex # post\<rparr>))"
    by blast
  let ?st' = "st\<lparr>store.weight := pre @ overwritten payload now ex # post\<rparr>"
  have keys: "map weight_key (store.weight ?st') = map weight_key (store.weight st)"
    using key by (simp add: w)
  have ids: "map oid (store.weight ?st') = map oid (store.weight st)"
    by (simp add: w)
  have "one_weight_per_pair ?st'"
    using assms(2) unfolding one_weight_per_pair_def keys .
  moreover have "unique_ids ?st'"
    using assms(1) unfolding unique_ids_def ids .
  ultimately show ?thesis
    using run w key ids
    by (simp add: overwritten_def) blast
qed

theorem set_weight_is_upsert_witness:
  "unique_ids bobot_store \<and> one_weight_per_pair bobot_store \<and>
   (\<exists>st' wid d.
     set_weight bobot_baru 7 8 ''64b7f0a1c2d3e4f5a6b7c829'' (Some bobot_store)
       = (Inr (wid, d), Some st') \<and>
     one_weight_per_pair st' \<and>
     (''64b7f0a1c2d3e4f5a6b7c829'' \<notin> oid ` set (store.weight bobot_store) \<longrightarrow> unique_ids st') \<and>
     store.student st' = store.student bobot_store \<and>
     store.subject st' = store.subject bobot_store \<and>
     store.score st' = store.score bobot_store \<and>
     (if payload_key bobot_baru \<in> weight_key ` set (store.weight bobot_store)
      then \<exists>pre ex post.
             store.weight bobot_store = pre @ ex # post \<and>
             weight_key ex = payload_key bobot_baru \<and>
             store.weight st' =
               pre @ ex\<lparr>updated_at := Some 7, body := model_dump bobot_baru\<rparr> # post \<and>
             map oid (store.weight st') = map oid (store.weight bobot_store) \<and>
             wid = str_of_id (oid ex)
      else store.weight st' =
             store.weight bobot_store @
               [\<lparr>created_at = Some 7, updated_at = Some 8, body = model_dump bobot_baru,
                 oid = ''64b7f0a1c2d3e4f5a6b7c829''\<rparr>] \<and>
           wid = str_of_id ''64b7f0a1c2d3e4f5a6b7c829''))"
  by (intro conjI bobot_store_invariants set_weight_is_upsert [OF bobot_store_invariants])



text \<open>
  Claim C9. The report writes nothing: whatever the state of the handle and whatever the
  outcome, the state after the computation is the state before it. On a connected store
  the outcome is a complete report or one of the two errors, never part of a report.
\<close>

theorem generate_report_is_read_only:
  "snd (generate_report sid subj s) = s \<and>
   (case fst (generate_report sid subj (Some st)) of
      Inr r \<Rightarrow> True
    | Inl e \<Rightarrow> e = HTTPException 404 ''Siswa atau mapel tidak ditemukan'' \<or>
               e = HTTPException 400 ''Semua bobot 0'')"
proof -
  have a: "snd (generate_report sid subj (Some st')) = Some st'" for st'
    by (cases rule: generate_report_cases [of sid subj st'])
       (simp_all add: generate_report_success)
  have b: "snd (generate_report sid subj s) = s"
    by (cases s) (simp_all add: generate_report_None a)
  have c: "(case fst (generate_report sid subj (Some st)) of
      Inr r \<Rightarrow> True
    | Inl e \<Rightarrow> e = HTTPException 404 ''Siswa atau mapel tidak ditemukan'' \<or>
               e = HTTPException 400 ''Semua bobot 0'')"
    by (cases rule: generate_report_cases [of sid subj st])
       (simp_all add: generate_report_success not_found_def invalid_configuration_def)
  from b c show ?thesis by simp
qed

theorem generate_report_is_read_only_witness:
  "snd (generate_report ''64b7f0a1c2d3e4f5a6b7c801'' ''64b7f0a1c2d3e4f5a6b7c802'' (Some rapor_store))
     = Some rapor_store \<and>
   snd (generate_report ''budi'' ''64b7f0a1c2d3e4f5a6b7c802'' (Some rapor_store))
     = Some rapor_store \<and>
   snd (generate_report ''64b7f0a1c2d3e4f5a6b7c801'' ''64b7f0a1c2d3e4f5a6b7c802'' (Some nol_store))
     = Some nol_store \<and>
   snd (generate_report ''64b7f0a1c2d3e4f5a6b7c801'' ''64b7f0a1c2d3e4f5a6b7c802'' None) = None"
  using generate_report_is_read_only
      [of "''64b7f0a1c2d3e4f5a6b7c801''" "''64b7f0a1c2d3e4f5a6b7c802''" "Some rapor_store"
        rapor_store]
    generate_report_is_read_only
      [of "''budi''" "''64b7f0a1c2d3e4f5a6b7c802''" "Some rapor_store" rapor_store]
    generate_report_is_read_only
      [of "''64b7f0a1c2d3e4f5a6b7c801''" "''64b7f0a1c2d3e4f5a6b7c802''" "Some nol_store"
        nol_store]
    generate_report_is_read_only
      [of "''64b7f0a1c2d3e4f5a6b7c801''" "''64b7f0a1c2d3e4f5a6b7c802''" None rapor_store]
  by simp

text \<open>
  Claim C10. The constants stand in field by field. When a weight record is resolved, each
  of its four values that is present is used as stored and each one that is missing is
  replaced by its own constant (tugas 30, kuis 20, uts 20, uas 30); a resolved record is
  never replaced as a whole.
\<close>

theorem weight_defaults_per_field:
  assumes "fallback_record st subj cls = Some w"
  shows "resolve_weights subj cls (Some st) =
     (Inr ((case weight_doc.tugas (body w) of None \<Rightarrow> 30 | Some x \<Rightarrow> x),
           (case weight_doc.kuis (body w) of None \<Rightarrow> 20 | Some x \<Rightarrow> x),
           (case weight_doc.uts (body w) of None \<Rightarrow> 20 | Some x \<Rightarrow> x),
           (case weight_doc.uas (body w) of None \<Rightarrow> 30 | Some x \<Rightarrow> x)), Some st)"
  using assms by (simp add: resolve_weights_fallback weight_get_def)

theorem weight_defaults_per_field_witness:
  "fallback_record bobot_store ''64b7f0a1c2d3e4f5a6b7c803'' (Some ''VIIA'')
     = Some (weight_of ''64b7f0a1c2d3e4f5a6b7c823'' ''64b7f0a1c2d3e4f5a6b7c803'' None
               (Some 50) None None (Some 10)) \<and>
   resolve_weights ''64b7f0a1c2d3e4f5a6b7c803'' (Some ''VIIA'') (Some bobot_store)
     = (Inr (50, 20, 20, 10), Some bobot_store)"
proof -
  have h: "fallback_record bobot_store ''64b7f0a1c2d3e4f5a6b7c803'' (Some ''VIIA'')
     = Some (weight_of ''64b7f0a1c2d3e4f5a6b7c823'' ''64b7f0a1c2d3e4f5a6b7c803'' None
               (Some 50) None None (Some 10))"
    by (simp add: fallback_record_def bobot_store_def weight_of_def in_scope_def)
  show ?thesis
    using h weight_defaults_per_field [OF h] by (simp add: weight_of_def)
qed

end
